theory Spec2Isabelle
  imports Complex_Main "HOL-Library.Word"
begin

section \<open>JavaScript values\<close>

text \<open>
  A JavaScript string is a sequence of UTF-16 code units.  The string literals of the
  sources are ASCII, except for the check mark U+2705 in the reply of \<open>/test-cors\<close>;
  \<open>ascii\<close> embeds an ASCII literal.
\<close>

type_synonym jsstring = "16 word list"

definition ascii :: "string \<Rightarrow> jsstring" where
  "ascii s = map (\<lambda>c. of_nat (of_char c)) s"

text \<open>
  The values that \<open>JSON.parse\<close> and the client libraries hand to the code: no functions,
  no symbols, no getters.  An object is the list of its own properties.  A number is
  taken as the real it denotes (\<open>-0\<close> is \<open>0\<close>; \<open>NaN\<close> is not a JSON number).
\<close>

datatype jsval =
    JUndefined
  | JNull
  | JBool bool
  | JNum real
  | JStr jsstring
  | JArr "jsval list"
  | JObj "(jsstring \<times> jsval) list"

datatype js_error =
    TypeError
  | Failure jsval  \<comment> \<open>whatever an external call throws or rejects with\<close>

text \<open>Sequencing of steps that may throw: the first error ends the chain.\<close>

definition and_then :: "js_error + 'a \<Rightarrow> ('a \<Rightarrow> js_error + 'b) \<Rightarrow> js_error + 'b" where
  "and_then r f = (case r of Inl e \<Rightarrow> Inl e | Inr v \<Rightarrow> f v)"

text \<open>\<open>!v\<close> is \<open>\<not> truthy v\<close>.\<close>

fun truthy :: "jsval \<Rightarrow> bool" where
  "truthy JUndefined = False"
| "truthy JNull = False"
| "truthy (JBool b) = b"
| "truthy (JNum r) = (r \<noteq> 0)"
| "truthy (JStr s) = (s \<noteq> [])"
| "truthy (JArr xs) = True"
| "truthy (JObj kvs) = True"

text \<open>
  \<open>v.k\<close> for the property names the sources read (\<open>text\<close>, \<open>length\<close>, \<open>choices\<close>,
  \<open>message\<close>, \<open>content\<close>, \<open>textAnnotations\<close>, \<open>description\<close>): reading a property of
  \<open>undefined\<close> or \<open>null\<close> throws a TypeError, an object gives its own property or
  \<open>undefined\<close>, strings and arrays have a \<open>length\<close>, and none of the other names is
  inherited from a prototype.  Destructuring \<open>const { k } = v\<close> reads the same way.
\<close>

fun member :: "jsstring \<Rightarrow> jsval \<Rightarrow> js_error + jsval" where
  "member k JUndefined = Inl TypeError"
| "member k JNull = Inl TypeError"
| "member k (JBool b) = Inr JUndefined"
| "member k (JNum r) = Inr JUndefined"
| "member k (JStr s) = Inr (if k = ascii ''length'' then JNum (real (length s)) else JUndefined)"
| "member k (JArr xs) = Inr (if k = ascii ''length'' then JNum (real (length xs)) else JUndefined)"
| "member k (JObj kvs) = Inr (case map_of kvs k of None \<Rightarrow> JUndefined | Some v \<Rightarrow> v)"

text \<open>\<open>v[0]\<close>.\<close>

fun index0 :: "jsval \<Rightarrow> js_error + jsval" where
  "index0 JUndefined = Inl TypeError"
| "index0 JNull = Inl TypeError"
| "index0 (JBool b) = Inr JUndefined"
| "index0 (JNum r) = Inr JUndefined"
| "index0 (JStr s) = Inr (case s of [] \<Rightarrow> JUndefined | c # _ \<Rightarrow> JStr [c])"
| "index0 (JArr xs) = Inr (case xs of [] \<Rightarrow> JUndefined | x # _ \<Rightarrow> x)"
| "index0 (JObj kvs) = Inr (case map_of kvs (ascii ''0'') of None \<Rightarrow> JUndefined | Some v \<Rightarrow> v)"

text \<open>\<open>v?.length\<close>: \<open>undefined\<close> when \<open>v\<close> is \<open>undefined\<close> or \<open>null\<close>.\<close>

definition opt_length :: "jsval \<Rightarrow> jsval" where
  "opt_length v = (case member (ascii ''length'') v of Inl e \<Rightarrow> JUndefined | Inr l \<Rightarrow> l)"

text \<open>
  \<open>String.prototype.trim\<close> removes the code units of WhiteSpace and LineTerminator
  from both ends.
\<close>

definition is_space :: "16 word \<Rightarrow> bool" where
  "is_space c \<longleftrightarrow>
     c \<in> set [0x0009, 0x000A, 0x000B, 0x000C, 0x000D, 0x0020, 0x00A0, 0x1680,
               0x2000, 0x2001, 0x2002, 0x2003, 0x2004, 0x2005, 0x2006, 0x2007,
               0x2008, 0x2009, 0x200A, 0x2028, 0x2029, 0x202F, 0x205F, 0x3000, 0xFEFF]"

definition trim :: "jsstring \<Rightarrow> jsstring" where
  "trim s = rev (dropWhile is_space (rev (dropWhile is_space s)))"

text \<open>
  \<open>v.trim()\<close>: only a string has the method; on \<open>undefined\<close> and \<open>null\<close> the property
  read throws, on every other value \<open>trim\<close> is not a function.
\<close>

fun call_trim :: "jsval \<Rightarrow> js_error + jsstring" where
  "call_trim (JStr s) = Inr (trim s)"
| "call_trim v = Inl TypeError"

text \<open>
  \<open>ToString\<close>, as a template literal \<open>`${v}`\<close> applies it.  The rendering of a number is
  the runtime's and is a parameter.  An array is joined with commas, \<open>undefined\<close> and
  \<open>null\<close> elements giving the empty string.  An object yields \<open>[object Object]\<close>
  through the inherited \<open>toString\<close>; an own property \<open>toString\<close> hides that method, is
  not callable, and the conversion throws a TypeError.
\<close>

fun ToString :: "(real \<Rightarrow> jsstring) \<Rightarrow> jsval \<Rightarrow> js_error + jsstring"
  and join_elements :: "(real \<Rightarrow> jsstring) \<Rightarrow> jsval list \<Rightarrow> js_error + jsstring"
where
  "ToString nts JUndefined = Inr (ascii ''undefined'')"
| "ToString nts JNull = Inr (ascii ''null'')"
| "ToString nts (JBool b) = Inr (ascii (if b then ''true'' else ''false''))"
| "ToString nts (JNum r) = Inr (nts r)"
| "ToString nts (JStr s) = Inr s"
| "ToString nts (JArr xs) = join_elements nts xs"
| "ToString nts (JObj kvs) =
     (if map_of kvs (ascii ''toString'') = None then Inr (ascii ''[object Object]'')
      else Inl TypeError)"
| "join_elements nts [] = Inr []"
| "join_elements nts (x # xs) =
     (case (if x = JUndefined \<or> x = JNull then Inr [] else ToString nts x) of
        Inl e \<Rightarrow> Inl e
      | Inr a \<Rightarrow>
          (if xs = [] then Inr a
           else (case join_elements nts xs of
                   Inl e \<Rightarrow> Inl e
                 | Inr b \<Rightarrow> Inr (a @ ascii '','' @ b))))"

section \<open>Observable effects\<close>

text \<open>
  A run of a handler is the list of its effects, in order, and the way its body ends.
  The external calls are parameters: a call resolves with a value (\<open>Inr\<close>) or throws or
  rejects with an error (\<open>Inl\<close>).  The awaited promise is taken to settle.
\<close>

record request =
  body :: jsval

text \<open>
  A body that the JSON body parser has parsed is an object or an array: its strict mode,
  the default, refuses every other JSON text before the handler runs.
\<close>

definition parsed_body :: "jsval \<Rightarrow> bool" where
  "parsed_body b = (case b of JObj kvs \<Rightarrow> True | JArr xs \<Rightarrow> True | _ \<Rightarrow> False)"

record chat_message =
  role :: jsstring
  content :: jsstring

record chat_params =
  model :: jsstring
  messages :: "chat_message list"
  temperature :: real

datatype logarg = LVal jsval | LErr js_error

datatype event =
    ConsoleLog "jsval list"
  | ConsoleError "logarg list"
  | ChatCreate chat_params
  | ReadFile jsstring
  | TextDetection "8 word list"
  | Reply nat jsval  \<comment> \<open>status code and JSON body\<close>

datatype completion = Returned | Threw js_error

definition replies :: "event list \<Rightarrow> (nat \<times> jsval) list" where
  "replies tr = concat (map (\<lambda>ev. case ev of Reply st b \<Rightarrow> [(st, b)] | _ \<Rightarrow> []) tr)"

definition chat_calls :: "event list \<Rightarrow> chat_params list" where
  "chat_calls tr = concat (map (\<lambda>ev. case ev of ChatCreate p \<Rightarrow> [p] | _ \<Rightarrow> []) tr)"

definition error_logs :: "event list \<Rightarrow> logarg list list" where
  "error_logs tr = concat (map (\<lambda>ev. case ev of ConsoleError as \<Rightarrow> [as] | _ \<Rightarrow> []) tr)"

definition console_logs :: "event list \<Rightarrow> jsval list list" where
  "console_logs tr = concat (map (\<lambda>ev. case ev of ConsoleLog as \<Rightarrow> [as] | _ \<Rightarrow> []) tr)"

section \<open>The route \<open>/extract-ingredients\<close>\<close>

text \<open>The argument of \<open>openai.chat.completions.create\<close> for the text \<open>t\<close>.\<close>

definition completion_params :: "jsstring \<Rightarrow> chat_params" where
  "completion_params t =
     \<lparr> model = ascii ''gpt-5-mini'',
       messages =
         [\<lparr> role = ascii ''system'',
             content = ascii ''You are an assistant that extracts ingredients from text.'' \<rparr>,
          \<lparr> role = ascii ''user'',
             content = ascii ''Extract a clean list of ingredients from this text: '' @ t \<rparr>],
       temperature = 0 \<rparr>"

text \<open>\<open>response.choices[0].message.content\<close>, and the whole expression with \<open>.trim()\<close>.\<close>

definition first_choice_content :: "jsval \<Rightarrow> js_error + jsval" where
  "first_choice_content response =
     and_then (member (ascii ''choices'') response) (\<lambda>choices.
     and_then (index0 choices) (\<lambda>choice.
     and_then (member (ascii ''message'') choice) (\<lambda>msg.
     member (ascii ''content'') msg)))"

definition first_choice_trimmed :: "jsval \<Rightarrow> js_error + jsstring" where
  "first_choice_trimmed response = and_then (first_choice_content response) call_trim"

text \<open>
  The body of the \<open>try\<close> block: its effects, and the error that sends control to the
  \<open>catch\<close> clause, if any.  The template literal is evaluated before the call.
\<close>

definition extract_try ::
  "(real \<Rightarrow> jsstring) \<Rightarrow> (chat_params \<Rightarrow> js_error + jsval) \<Rightarrow> jsval \<Rightarrow> event list \<times> js_error option"
where
  "extract_try nts create text =
     (case ToString nts text of
        Inl e \<Rightarrow> ([], Some e)
      | Inr t \<Rightarrow>
          (case create (completion_params t) of
             Inl e \<Rightarrow> ([ChatCreate (completion_params t)], Some e)
           | Inr response \<Rightarrow>
               (case first_choice_trimmed response of
                  Inl e \<Rightarrow> ([ChatCreate (completion_params t)], Some e)
                | Inr ingredients \<Rightarrow>
                    ([ChatCreate (completion_params t),
                      Reply 200 (JObj [(ascii ''ingredients'', JStr ingredients)])], None))))"

definition extract_ingredients ::
  "(real \<Rightarrow> jsstring) \<Rightarrow> (chat_params \<Rightarrow> js_error + jsval) \<Rightarrow> request \<Rightarrow> event list \<times> completion"
where
  "extract_ingredients nts create req =
     (case member (ascii ''text'') (body req) of
        Inl e \<Rightarrow> ([], Threw e)
      | Inr text \<Rightarrow>
          (if \<not> truthy text then
             ([ConsoleLog [JStr (ascii ''Received text length:''), opt_length text],
               Reply 400 (JObj [(ascii ''error'', JStr (ascii ''No text provided''))])],
              Returned)
           else
             (case extract_try nts create text of
                (evs, None) \<Rightarrow>
                  (ConsoleLog [JStr (ascii ''Received text length:''), opt_length text] # evs,
                   Returned)
              | (evs, Some err) \<Rightarrow>
                  (ConsoleLog [JStr (ascii ''Received text length:''), opt_length text] # evs @
                   [ConsoleError [LErr err],
                    Reply 500 (JObj [(ascii ''error'', JStr (ascii ''Failed to extract ingredients''))])],
                   Returned))))"

section \<open>The route \<open>/test-cors\<close>\<close>

definition test_cors :: "request \<Rightarrow> event list \<times> completion" where
  "test_cors req =
     ([Reply 200 (JObj [(ascii ''message'',
                         JStr (0x2705 # ascii '' CORS is working properly''))])],
      Returned)"

section \<open>The OCR script\<close>

definition imagePath :: jsstring where
  "imagePath = ascii ''./test-image.jpg''"

definition no_text_detected :: event where
  "no_text_detected = ConsoleLog [JStr (ascii ''No text detected!'')]"

text \<open>
  The body of the \<open>try\<close> block of \<open>testOCR\<close>.  \<open>textDetection\<close> resolves with an array,
  whose first element \<open>[result]\<close> takes.
\<close>

definition ocr_try ::
  "(jsstring \<Rightarrow> js_error + 8 word list) \<Rightarrow> (8 word list \<Rightarrow> js_error + jsval list) \<Rightarrow>
   event list \<times> js_error option"
where
  "ocr_try readFileSync textDetection =
     (case readFileSync imagePath of
        Inl e \<Rightarrow> ([ReadFile imagePath], Some e)
      | Inr imageBuffer \<Rightarrow>
          (case textDetection imageBuffer of
             Inl e \<Rightarrow> ([ReadFile imagePath, TextDetection imageBuffer], Some e)
           | Inr rs \<Rightarrow>
               (case member (ascii ''textAnnotations'') (case rs of [] \<Rightarrow> JUndefined | r # _ \<Rightarrow> r) of
                  Inl e \<Rightarrow> ([ReadFile imagePath, TextDetection imageBuffer], Some e)
                | Inr detections \<Rightarrow>
                    (if \<not> truthy detections \<or> member (ascii ''length'') detections = Inr (JNum 0) then
                       ([ReadFile imagePath, TextDetection imageBuffer, no_text_detected], None)
                     else
                       (case and_then (index0 detections) (member (ascii ''description'')) of
                          Inl e \<Rightarrow> ([ReadFile imagePath, TextDetection imageBuffer], Some e)
                        | Inr d \<Rightarrow>
                            ([ReadFile imagePath, TextDetection imageBuffer,
                              ConsoleLog [JStr (ascii ''Text detected:'' @ [0x000A]), d]], None))))))"

definition testOCR ::
  "(jsstring \<Rightarrow> js_error + 8 word list) \<Rightarrow> (8 word list \<Rightarrow> js_error + jsval list) \<Rightarrow>
   event list \<times> completion"
where
  "testOCR readFileSync textDetection =
     (case ocr_try readFileSync textDetection of
        (evs, None) \<Rightarrow> (evs, Returned)
      | (evs, Some err) \<Rightarrow>
          (evs @ [ConsoleError [LVal (JStr (ascii ''Error with Google Vision API:'')), LErr err]],
           Returned))"

section \<open>Example inputs\<close>

text \<open>
  The request of the example scenario, and a completion with two choices: the first
  with white space around the list.
\<close>

definition flour_text :: jsstring where
  "flour_text = ascii ''2 cups flour, 1 egg, a pinch of salt''"

definition flour_request :: request where
  "flour_request = \<lparr> body = JObj [(ascii ''text'', JStr flour_text)] \<rparr>"

definition flour_completion :: jsval where
  "flour_completion =
     JObj [(ascii ''id'', JStr (ascii ''chatcmpl-1'')),
           (ascii ''choices'',
            JArr [JObj [(ascii ''index'', JNum 0),
                        (ascii ''message'',
                         JObj [(ascii ''role'', JStr (ascii ''assistant'')),
                               (ascii ''content'',
                                JStr (ascii '' Flour'' @ [0x000A] @ ascii ''Egg'' @ [0x000A] @
                                      ascii ''Salt'' @ [0x000A]))])],
                  JObj [(ascii ''index'', JNum 1),
                        (ascii ''message'',
                         JObj [(ascii ''role'', JStr (ascii ''assistant'')),
                               (ascii ''content'', JStr (ascii ''Sugar''))])]])]"

definition quota_error :: js_error where
  "quota_error = Failure (JObj [(ascii ''status'', JNum 429)])"

text \<open>Results of the text detection: one with a line of text, one with none.\<close>

definition label_result :: jsval where
  "label_result =
     JObj [(ascii ''textAnnotations'',
            JArr [JObj [(ascii ''description'', JStr (ascii ''SUGAR, SALT''))],
                  JObj [(ascii ''description'', JStr (ascii ''SUGAR''))]])]"

definition blank_result :: jsval where
  "blank_result = JObj [(ascii ''textAnnotations'', JArr [])]"

section \<open>Properties of the value operations\<close>

text \<open>
  \<open>trim\<close> keeps the middle of the string: what it removes on either side is white space,
  and what it keeps neither starts nor ends with white space.
\<close>

lemma trim_decompose:
  "\<exists>l r. s = l @ trim s @ r \<and> (\<forall>c\<in>set l. is_space c) \<and> (\<forall>c\<in>set r. is_space c)"
proof -
  define d where "d = dropWhile is_space s"
  have s: "s = takeWhile is_space s @ d"
    by (simp add: d_def)
  have "rev (rev d) = rev (takeWhile is_space (rev d) @ dropWhile is_space (rev d))"
    by (simp only: takeWhile_dropWhile_id)
  then have d: "d = trim s @ rev (takeWhile is_space (rev d))"
    by (simp only: rev_rev_ident rev_append trim_def d_def)
  have l: "\<forall>c\<in>set (takeWhile is_space s). is_space c"
    by (auto dest: set_takeWhileD)
  have r: "\<forall>c\<in>set (rev (takeWhile is_space (rev d))). is_space c"
    by (auto dest: set_takeWhileD)
  from s d have "s = takeWhile is_space s @ trim s @ rev (takeWhile is_space (rev d))"
    by simp
  with l r show ?thesis by blast
qed

lemma trim_ends:
  assumes "trim s \<noteq> []"
  shows "\<not> is_space (hd (trim s))" and "\<not> is_space (last (trim s))"
proof -
  define d where "d = dropWhile is_space s"
  have t: "trim s = rev (dropWhile is_space (rev d))"
    by (simp add: trim_def d_def)
  from assms t have ne: "dropWhile is_space (rev d) \<noteq> []" by simp
  then show "\<not> is_space (last (trim s))"
    by (simp add: t last_rev hd_dropWhile)
  from ne have dne: "d \<noteq> []" by auto
  then have hd: "\<not> is_space (hd d)"
    unfolding d_def by (rule hd_dropWhile)
  have "rev (rev d) = rev (takeWhile is_space (rev d) @ dropWhile is_space (rev d))"
    by (simp only: takeWhile_dropWhile_id)
  then have "d = trim s @ rev (takeWhile is_space (rev d))"
    by (simp only: rev_rev_ident rev_append t)
  with assms have "hd d = hd (trim s)"
    by (metis hd_append2)
  with hd show "\<not> is_space (hd (trim s))" by simp
qed

text \<open>The falsy values.\<close>

lemma falsy_iff: "\<not> truthy v \<longleftrightarrow> v \<in> {JUndefined, JNull, JBool False, JNum 0, JStr []}"
  by (cases v) auto

lemma parsed_body_member: "parsed_body b \<Longrightarrow> \<exists>v. member k b = Inr v"
  by (cases b) (simp_all add: parsed_body_def)

section \<open>The paths of the handlers\<close>

lemma extract_rejects:
  assumes "member (ascii ''text'') (body req) = Inr v" and "\<not> truthy v"
  shows "extract_ingredients nts create req =
           ([ConsoleLog [JStr (ascii ''Received text length:''), opt_length v],
             Reply 400 (JObj [(ascii ''error'', JStr (ascii ''No text provided''))])],
            Returned)"
  using assms by (simp add: extract_ingredients_def)

lemma extract_succeeds:
  assumes "member (ascii ''text'') (body req) = Inr v" and "truthy v"
    and "extract_try nts create v = (evs, None)"
  shows "extract_ingredients nts create req =
           (ConsoleLog [JStr (ascii ''Received text length:''), opt_length v] # evs, Returned)"
  using assms by (simp add: extract_ingredients_def)

lemma extract_catches:
  assumes "member (ascii ''text'') (body req) = Inr v" and "truthy v"
    and "extract_try nts create v = (evs, Some err)"
  shows "extract_ingredients nts create req =
           (ConsoleLog [JStr (ascii ''Received text length:''), opt_length v] # evs @
            [ConsoleError [LErr err],
             Reply 500 (JObj [(ascii ''error'', JStr (ascii ''Failed to extract ingredients''))])],
            Returned)"
  using assms by (simp add: extract_ingredients_def)


lemma extract_try_throws:
  "ToString nts v = Inl e \<Longrightarrow> extract_try nts create v = ([], Some e)"
  by (simp add: extract_try_def)

lemma extract_try_rejected:
  "ToString nts v = Inr t \<Longrightarrow> create (completion_params t) = Inl e \<Longrightarrow>
   extract_try nts create v = ([ChatCreate (completion_params t)], Some e)"
  by (simp add: extract_try_def)

lemma extract_try_malformed:
  "ToString nts v = Inr t \<Longrightarrow> create (completion_params t) = Inr response \<Longrightarrow>
   first_choice_trimmed response = Inl e \<Longrightarrow>
   extract_try nts create v = ([ChatCreate (completion_params t)], Some e)"
  by (simp add: extract_try_def)

lemma extract_try_resolved:
  "ToString nts v = Inr t \<Longrightarrow> create (completion_params t) = Inr response \<Longrightarrow>
   first_choice_trimmed response = Inr i \<Longrightarrow>
   extract_try nts create v =
     ([ChatCreate (completion_params t),
       Reply 200 (JObj [(ascii ''ingredients'', JStr i)])], None)"
  by (simp add: extract_try_def)

lemma first_choice_trimmed_Inr:
  "first_choice_trimmed response = Inr i \<longleftrightarrow>
     (\<exists>c. first_choice_content response = Inr (JStr c) \<and> i = trim c)"
proof (cases "first_choice_content response")
  case (Inl e)
  then show ?thesis by (simp add: first_choice_trimmed_def and_then_def)
next
  case (Inr w)
  then show ?thesis
    by (cases w) (auto simp: first_choice_trimmed_def and_then_def)
qed

text \<open>The projections of a run, event by event.\<close>

lemma replies_simps:
  "replies [] = []"
  "replies (Reply st b # tr) = (st, b) # replies tr"
  "replies (ConsoleLog as # tr) = replies tr"
  "replies (ConsoleError es # tr) = replies tr"
  "replies (ChatCreate p # tr) = replies tr"
  "replies (ReadFile f # tr) = replies tr"
  "replies (TextDetection i # tr) = replies tr"
  by (simp_all add: replies_def)

lemma chat_calls_simps:
  "chat_calls [] = []"
  "chat_calls (ChatCreate p # tr) = p # chat_calls tr"
  "chat_calls (ConsoleLog as # tr) = chat_calls tr"
  "chat_calls (ConsoleError es # tr) = chat_calls tr"
  "chat_calls (Reply st b # tr) = chat_calls tr"
  "chat_calls (ReadFile f # tr) = chat_calls tr"
  "chat_calls (TextDetection i # tr) = chat_calls tr"
  by (simp_all add: chat_calls_def)

lemma error_logs_simps:
  "error_logs [] = []"
  "error_logs (ConsoleError es # tr) = es # error_logs tr"
  "error_logs (ConsoleLog as # tr) = error_logs tr"
  "error_logs (ChatCreate p # tr) = error_logs tr"
  "error_logs (Reply st b # tr) = error_logs tr"
  "error_logs (ReadFile f # tr) = error_logs tr"
  "error_logs (TextDetection i # tr) = error_logs tr"
  by (simp_all add: error_logs_def)

lemma console_logs_simps:
  "console_logs [] = []"
  "console_logs (ConsoleLog as # tr) = as # console_logs tr"
  "console_logs (ConsoleError es # tr) = console_logs tr"
  "console_logs (ChatCreate p # tr) = console_logs tr"
  "console_logs (Reply st b # tr) = console_logs tr"
  "console_logs (ReadFile f # tr) = console_logs tr"
  "console_logs (TextDetection i # tr) = console_logs tr"
  by (simp_all add: console_logs_def)

text \<open>Without a body, the destructuring assignment throws before the first statement.\<close>

lemma extract_without_body:
  "body req = JUndefined \<or> body req = JNull \<Longrightarrow>
   extract_ingredients nts create req = ([], Threw TypeError)"
  by (auto simp: extract_ingredients_def)

text \<open>
  The other ways into the \<open>catch\<close> clause: a completion of the wrong shape, after the
  call, and a text whose conversion to a string throws, before any call.
\<close>

lemma malformed_completion_caught:
  assumes "member (ascii ''text'') (body req) = Inr v" and "truthy v"
    and "ToString nts v = Inr t"
    and "create (completion_params t) = Inr response"
    and "first_choice_trimmed response = Inl e"
  shows "extract_ingredients nts create req =
           ([ConsoleLog [JStr (ascii ''Received text length:''), opt_length v],
             ChatCreate (completion_params t),
             ConsoleError [LErr e],
             Reply 500 (JObj [(ascii ''error'', JStr (ascii ''Failed to extract ingredients''))])],
            Returned)"
proof -
  have "extract_try nts create v = ([ChatCreate (completion_params t)], Some e)"
    using assms(3,4,5) by (simp add: extract_try_def)
  from extract_catches [OF assms(1,2) this] show ?thesis by simp
qed

lemma unprintable_text_caught:
  assumes "member (ascii ''text'') (body req) = Inr v" and "truthy v"
    and "ToString nts v = Inl e"
  shows "extract_ingredients nts create req =
           ([ConsoleLog [JStr (ascii ''Received text length:''), opt_length v],
             ConsoleError [LErr e],
             Reply 500 (JObj [(ascii ''error'', JStr (ascii ''Failed to extract ingredients''))])],
            Returned)"
proof -
  have "extract_try nts create v = ([], Some e)"
    using assms(3) by (simp add: extract_try_def)
  from extract_catches [OF assms(1,2) this] show ?thesis by simp
qed

lemma replies_append: "replies (xs @ ys) = replies xs @ replies ys"
  by (simp add: replies_def)

lemma extract_try_replies:
  assumes "extract_try nts create v = (evs, r)"
  shows "r = None \<and> (\<exists>i. replies evs = [(200, JObj [(ascii ''ingredients'', JStr i)])])
       \<or> (\<exists>e. r = Some e) \<and> replies evs = []"
  using assms
  by (auto simp: extract_try_def replies_simps split: sum.splits)

lemma ocr_try_no_text:
  assumes "readFileSync imagePath = Inr buf"
    and "textDetection buf = Inr (r # rest)"
    and "member (ascii ''textAnnotations'') r = Inr d"
    and "\<not> truthy d \<or> member (ascii ''length'') d = Inr (JNum 0)"
  shows "ocr_try readFileSync textDetection =
           ([ReadFile imagePath, TextDetection buf, no_text_detected], None)"
  using assms by (auto simp: ocr_try_def)

lemma ocr_try_text:
  assumes "readFileSync imagePath = Inr buf"
    and "textDetection buf = Inr (r # rest)"
    and "member (ascii ''textAnnotations'') r = Inr d"
    and "truthy d" and "member (ascii ''length'') d \<noteq> Inr (JNum 0)"
    and "and_then (index0 d) (member (ascii ''description'')) = Inr x"
  shows "ocr_try readFileSync textDetection =
           ([ReadFile imagePath, TextDetection buf,
             ConsoleLog [JStr (ascii ''Text detected:'' @ [0x000A]), x]], None)"
  using assms by (simp add: ocr_try_def)

lemma index0_truthy: "truthy d \<Longrightarrow> \<exists>x. index0 d = Inr x"
  by (cases d) simp_all

lemma first_choice_content_Inr:
  "first_choice_content response = Inr x \<longleftrightarrow>
     (\<exists>choices choice msg.
        member (ascii ''choices'') response = Inr choices \<and>
        index0 choices = Inr choice \<and>
        member (ascii ''message'') choice = Inr msg \<and>
        member (ascii ''content'') msg = Inr x)"
  by (auto simp: first_choice_content_def and_then_def split: sum.splits)

section \<open>The claims on \<open>/extract-ingredients\<close>\<close>

text \<open>
  The replies for a non-empty string as text, in terms of the value of the expression
  \<open>response.choices[0].message.content\<close>.
\<close>

lemma extract_relays_content:
  assumes "member (ascii ''text'') (body req) = Inr (JStr t)" and "t \<noteq> []"
  shows "chat_calls (fst (extract_ingredients nts create req)) = [completion_params t]
       \<and> content (last (messages (completion_params t))) =
           ascii ''Extract a clean list of ingredients from this text: '' @ t
       \<and> (\<forall>response c.
             create (completion_params t) = Inr response \<and>
             first_choice_content response = Inr (JStr c) \<longrightarrow>
             replies (fst (extract_ingredients nts create req)) =
               [(200, JObj [(ascii ''ingredients'', JStr (trim c))])])
       \<and> (\<forall>b. (200, b) \<in> set (replies (fst (extract_ingredients nts create req))) \<longrightarrow>
             (\<exists>response c.
                create (completion_params t) = Inr response \<and>
                first_choice_content response = Inr (JStr c) \<and>
                b = JObj [(ascii ''ingredients'', JStr (trim c))]))"
proof -
  have tr: "truthy (JStr t)" and ts: "ToString nts (JStr t) = Inr t"
    using assms(2) by simp_all
  let ?log = "ConsoleLog [JStr (ascii ''Received text length:''), opt_length (JStr t)]"
  let ?run = "extract_ingredients nts create req"
  have both: "chat_calls (fst ?run) = [completion_params t] \<and>
      (\<forall>b. (200, b) \<in> set (replies (fst ?run)) \<longrightarrow>
             (\<exists>response c.
                create (completion_params t) = Inr response \<and>
                first_choice_content response = Inr (JStr c) \<and>
                b = JObj [(ascii ''ingredients'', JStr (trim c))]))"
  proof (cases "create (completion_params t)")
    case (Inl e)
    have "?run = (?log # [ChatCreate (completion_params t)] @
            [ConsoleError [LErr e],
             Reply 500 (JObj [(ascii ''error'', JStr (ascii ''Failed to extract ingredients''))])],
            Returned)"
      by (rule extract_catches [OF assms(1) tr extract_try_rejected [of nts "JStr t" t create e, OF ts Inl]])
    then show ?thesis
      by (simp add: chat_calls_simps replies_simps)
  next
    case (Inr response)
    show ?thesis
    proof (cases "first_choice_trimmed response")
      case (Inl e)
      have "?run = (?log # [ChatCreate (completion_params t)] @
            [ConsoleError [LErr e],
             Reply 500 (JObj [(ascii ''error'', JStr (ascii ''Failed to extract ingredients''))])],
            Returned)"
        by (rule extract_catches [OF assms(1) tr extract_try_malformed [of nts "JStr t" t create response e, OF ts Inr Inl]])
      then show ?thesis
        by (simp add: chat_calls_simps replies_simps)
    next
      case i: (Inr i)
      then obtain c where c: "first_choice_content response = Inr (JStr c)" "i = trim c"
        by (auto simp: first_choice_trimmed_Inr)
      have "?run = (?log # [ChatCreate (completion_params t),
              Reply 200 (JObj [(ascii ''ingredients'', JStr i)])], Returned)"
        by (rule extract_succeeds [OF assms(1) tr extract_try_resolved [of nts "JStr t" t create response i, OF ts Inr i]])
      with c Inr show ?thesis
        by (simp add: chat_calls_simps replies_simps)
    qed
  qed
  have forth: "\<forall>response c.
             create (completion_params t) = Inr response \<and>
             first_choice_content response = Inr (JStr c) \<longrightarrow>
             replies (fst ?run) = [(200, JObj [(ascii ''ingredients'', JStr (trim c))])]"
  proof (intro allI impI, elim conjE)
    fix response c
    assume r: "create (completion_params t) = Inr response"
      and c: "first_choice_content response = Inr (JStr c)"
    from c have i: "first_choice_trimmed response = Inr (trim c)"
      by (simp add: first_choice_trimmed_Inr)
    have "?run = (?log # [ChatCreate (completion_params t),
              Reply 200 (JObj [(ascii ''ingredients'', JStr (trim c))])], Returned)"
      by (rule extract_succeeds [OF assms(1) tr extract_try_resolved [of nts "JStr t" t create response "trim c", OF ts r i]])
    then show "replies (fst ?run) = [(200, JObj [(ascii ''ingredients'', JStr (trim c))])]"
      by (simp add: replies_simps)
  qed
  have prompt: "content (last (messages (completion_params t))) =
           ascii ''Extract a clean list of ingredients from this text: '' @ t"
    by (simp add: completion_params_def)
  from both prompt forth show ?thesis by blast
qed

text \<open>
  C1.  When the body's \<open>text\<close> field is a non-empty string, the chat completion is
  requested exactly once, whatever its outcome, and the prompt of the request ends with
  that text, unchanged.  When the completion resolves with an object whose \<open>choices\<close> is a
  list, whose first element is an object with a \<open>message\<close>, an object with the string \<open>c\<close>
  as \<open>content\<close>, then the only reply is 200 with \<open>ingredients\<close> the string \<open>c\<close> trimmed,
  whatever the other choices are.  A 200 reply is sent in no other case: its \<open>ingredients\<close>
  is always the trimmed string found at \<open>choices\<close>, index 0, \<open>message\<close>, \<open>content\<close> of the
  completion.
\<close>

theorem extract_relays_completion:
  assumes "member (ascii ''text'') (body req) = Inr (JStr t)" and "t \<noteq> []"
  shows "chat_calls (fst (extract_ingredients nts create req)) = [completion_params t]
       \<and> content (last (messages (completion_params t))) =
           ascii ''Extract a clean list of ingredients from this text: '' @ t
       \<and> (\<forall>fields choice others msg c.
             create (completion_params t) = Inr (JObj fields) \<and>
             map_of fields (ascii ''choices'') = Some (JArr (JObj choice # others)) \<and>
             map_of choice (ascii ''message'') = Some (JObj msg) \<and>
             map_of msg (ascii ''content'') = Some (JStr c) \<longrightarrow>
             replies (fst (extract_ingredients nts create req)) =
               [(200, JObj [(ascii ''ingredients'', JStr (trim c))])])
       \<and> (\<forall>b. (200, b) \<in> set (replies (fst (extract_ingredients nts create req))) \<longrightarrow>
             (\<exists>response choices choice msg c.
                create (completion_params t) = Inr response \<and>
                member (ascii ''choices'') response = Inr choices \<and>
                index0 choices = Inr choice \<and>
                member (ascii ''message'') choice = Inr msg \<and>
                member (ascii ''content'') msg = Inr (JStr c) \<and>
                b = JObj [(ascii ''ingredients'', JStr (trim c))]))"
proof -
  note rc = extract_relays_content [OF assms, of nts create]
  have forth: "replies (fst (extract_ingredients nts create req)) =
               [(200, JObj [(ascii ''ingredients'', JStr (trim c))])]"
    if "create (completion_params t) = Inr (JObj fields)"
      and "map_of fields (ascii ''choices'') = Some (JArr (JObj choice # others))"
      and "map_of choice (ascii ''message'') = Some (JObj msg)"
      and "map_of msg (ascii ''content'') = Some (JStr c)"
    for fields choice others msg c
  proof -
    from that(2-4) have "first_choice_content (JObj fields) = Inr (JStr c)"
      by (simp add: first_choice_content_def and_then_def)
    with rc that(1) show ?thesis by blast
  qed
  have backw: "\<exists>response choices choice msg c.
                create (completion_params t) = Inr response \<and>
                member (ascii ''choices'') response = Inr choices \<and>
                index0 choices = Inr choice \<and>
                member (ascii ''message'') choice = Inr msg \<and>
                member (ascii ''content'') msg = Inr (JStr c) \<and>
                b = JObj [(ascii ''ingredients'', JStr (trim c))]"
    if "(200, b) \<in> set (replies (fst (extract_ingredients nts create req)))" for b
  proof -
    from rc that obtain response c where
      "create (completion_params t) = Inr response"
      "first_choice_content response = Inr (JStr c)"
      "b = JObj [(ascii ''ingredients'', JStr (trim c))]"
      by blast
    then show ?thesis
      by (auto simp: first_choice_content_Inr)
  qed
  from rc forth backw show ?thesis by blast
qed

theorem extract_relays_completion_witness:
  "flour_text \<noteq> []
   \<and> chat_calls (fst (extract_ingredients (\<lambda>r. []) (\<lambda>p. Inr flour_completion) flour_request)) =
       [completion_params flour_text]
   \<and> replies (fst (extract_ingredients (\<lambda>r. []) (\<lambda>p. Inr flour_completion) flour_request)) =
       [(200, JObj [(ascii ''ingredients'',
                     JStr (ascii ''Flour'' @ [0x000A] @ ascii ''Egg'' @ [0x000A] @ ascii ''Salt''))])]"
proof -
  have h1: "member (ascii ''text'') (body flour_request) = Inr (JStr flour_text)"
    by (simp add: flour_request_def)
  have h2: "flour_text \<noteq> []"
    by (simp add: flour_text_def ascii_def)
  let ?msg = "[(ascii ''role'', JStr (ascii ''assistant'')),
               (ascii ''content'',
                JStr (ascii '' Flour'' @ [0x000A] @ ascii ''Egg'' @ [0x000A] @ ascii ''Salt'' @ [0x000A]))]"
  let ?choice = "[(ascii ''index'', JNum 0), (ascii ''message'', JObj ?msg)]"
  let ?others = "[JObj [(ascii ''index'', JNum 1),
                        (ascii ''message'',
                         JObj [(ascii ''role'', JStr (ascii ''assistant'')),
                               (ascii ''content'', JStr (ascii ''Sugar''))])]]"
  let ?fields = "[(ascii ''id'', JStr (ascii ''chatcmpl-1'')),
                  (ascii ''choices'', JArr (JObj ?choice # ?others))]"
  have r: "(\<lambda>p. Inr flour_completion) (completion_params flour_text) =
             (Inr (JObj ?fields) :: js_error + jsval)"
    by (simp add: flour_completion_def)
  have k1: "map_of ?fields (ascii ''choices'') = Some (JArr (JObj ?choice # ?others))"
    by (simp add: ascii_def)
  have k2: "map_of ?choice (ascii ''message'') = Some (JObj ?msg)"
    by (simp add: ascii_def)
  have k3: "map_of ?msg (ascii ''content'') =
      Some (JStr (ascii '' Flour'' @ [0x000A] @ ascii ''Egg'' @ [0x000A] @ ascii ''Salt'' @ [0x000A]))"
    by (simp add: ascii_def)
  have t: "trim (ascii '' Flour'' @ [0x000A] @ ascii ''Egg'' @ [0x000A] @ ascii ''Salt'' @ [0x000A]) =
      ascii ''Flour'' @ [0x000A] @ ascii ''Egg'' @ [0x000A] @ ascii ''Salt''"
    by code_simp
  note inst = extract_relays_completion [OF h1 h2, of "\<lambda>r. []" "\<lambda>p. Inr flour_completion"]
  from inst have calls:
    "chat_calls (fst (extract_ingredients (\<lambda>r. []) (\<lambda>p. Inr flour_completion) flour_request)) =
       [completion_params flour_text]"
    by (rule conjunct1)
  from inst r k1 k2 k3 have
    "replies (fst (extract_ingredients (\<lambda>r. []) (\<lambda>p. Inr flour_completion) flour_request)) =
       [(200, JObj [(ascii ''ingredients'',
          JStr (trim (ascii '' Flour'' @ [0x000A] @ ascii ''Egg'' @ [0x000A] @ ascii ''Salt'' @ [0x000A])))])]"
    by blast
  with t have
    "replies (fst (extract_ingredients (\<lambda>r. []) (\<lambda>p. Inr flour_completion) flour_request)) =
       [(200, JObj [(ascii ''ingredients'',
                     JStr (ascii ''Flour'' @ [0x000A] @ ascii ''Egg'' @ [0x000A] @ ascii ''Salt''))])]"
    by (simp only:)
  with h2 calls show ?thesis by (intro conjI)
qed

text \<open>
  When the body is a value and its \<open>text\<close> field is missing (it reads as \<open>undefined\<close>) or
  is the empty string, the chat completion is never requested and the only reply is 400
  with the body \<open>{error: "No text provided"}\<close>.
\<close>

lemma text_missing_or_empty_rejected:
  assumes "member (ascii ''text'') (body req) = Inr v"
    and "v = JUndefined \<or> v = JStr []"
  shows "chat_calls (fst (extract_ingredients nts create req)) = []
       \<and> replies (fst (extract_ingredients nts create req)) =
           [(400, JObj [(ascii ''error'', JStr (ascii ''No text provided''))])]
       \<and> snd (extract_ingredients nts create req) = Returned"
proof -
  from assms(2) have "\<not> truthy v" by auto
  from extract_rejects [OF assms(1) this] show ?thesis
    by (simp add: chat_calls_simps replies_simps)
qed

text \<open>
  C2.  A request that reaches the handler without a parsed body has no text either, but
  for it the 400 reply is not sent: \<open>const { text } = req.body\<close> throws before the gate, the
  handler ends with the TypeError and has replied nothing.  The chat completion is not
  requested.
\<close>

theorem no_body_not_rejected:
  "extract_ingredients nts create \<lparr>body = JUndefined\<rparr> = ([], Threw TypeError)"
  by (simp add: extract_ingredients_def)

text \<open>
  C3.  When the chat completion is requested and the call fails with an error \<open>e\<close>,
  whatever \<open>e\<close> is, the handler catches it: it returns normally, \<open>e\<close> goes to the console
  only, and the one reply is 500 with the fixed body
  \<open>{error: "Failed to extract ingredients"}\<close>, in which \<open>e\<close> does not occur.
\<close>

theorem completion_failure_gives_500:
  assumes "member (ascii ''text'') (body req) = Inr v" and "truthy v"
    and "ToString nts v = Inr t"
    and "create (completion_params t) = Inl e"
  shows "extract_ingredients nts create req =
           ([ConsoleLog [JStr (ascii ''Received text length:''), opt_length v],
             ChatCreate (completion_params t),
             ConsoleError [LErr e],
             Reply 500 (JObj [(ascii ''error'', JStr (ascii ''Failed to extract ingredients''))])],
            Returned)"
proof -
  have "extract_try nts create v = ([ChatCreate (completion_params t)], Some e)"
    using assms(3,4) by (simp add: extract_try_def)
  from extract_catches [OF assms(1,2) this] show ?thesis by simp
qed

theorem completion_failure_gives_500_witness:
  "replies (fst (extract_ingredients (\<lambda>r. []) (\<lambda>p. Inl quota_error) flour_request)) =
     [(500, JObj [(ascii ''error'', JStr (ascii ''Failed to extract ingredients''))])]
   \<and> snd (extract_ingredients (\<lambda>r. []) (\<lambda>p. Inl quota_error) flour_request) = Returned
   \<and> error_logs (fst (extract_ingredients (\<lambda>r. []) (\<lambda>p. Inl quota_error) flour_request)) =
     [[LErr quota_error]]"
proof -
  have h1: "member (ascii ''text'') (body flour_request) = Inr (JStr flour_text)"
    by (simp add: flour_request_def)
  have h2: "truthy (JStr flour_text)"
    by (simp add: flour_text_def ascii_def)
  have h3: "ToString (\<lambda>r. []) (JStr flour_text) = Inr flour_text"
    by simp
  have h4: "(\<lambda>p. Inl quota_error) (completion_params flour_text) = Inl quota_error"
    by simp
  from completion_failure_gives_500 [of flour_request "JStr flour_text" "\<lambda>r. []" flour_text
      "\<lambda>p. Inl quota_error" quota_error, OF h1 h2 h3 h4]
  show ?thesis by (simp add: replies_simps error_logs_simps)
qed

text \<open>
  For a request with a parsed body the handler returns normally and sends exactly one
  reply: 400 when the text is falsy, 200 when the \<open>try\<close> block runs to its end, 500 when
  the \<open>try\<close> block throws.
\<close>

lemma parsed_body_one_reply:
  assumes "parsed_body (body req)"
  shows "snd (extract_ingredients nts create req) = Returned
       \<and> (\<exists>v. member (ascii ''text'') (body req) = Inr v \<and>
            (\<not> truthy v \<and>
               replies (fst (extract_ingredients nts create req)) =
                 [(400, JObj [(ascii ''error'', JStr (ascii ''No text provided''))])]
             \<or> truthy v \<and> snd (extract_try nts create v) = None \<and>
               (\<exists>i. replies (fst (extract_ingredients nts create req)) =
                  [(200, JObj [(ascii ''ingredients'', JStr i)])])
             \<or> truthy v \<and> (\<exists>e. snd (extract_try nts create v) = Some e) \<and>
               replies (fst (extract_ingredients nts create req)) =
                 [(500, JObj [(ascii ''error'', JStr (ascii ''Failed to extract ingredients''))])]))"
proof -
  from assms obtain v where v: "member (ascii ''text'') (body req) = Inr v"
    using parsed_body_member by blast
  show ?thesis
  proof (cases "truthy v")
    case False
    from extract_rejects [OF v False, of nts create] v False show ?thesis
      by (simp add: replies_simps)
  next
    case True
    obtain evs r where et: "extract_try nts create v = (evs, r)"
      by (cases "extract_try nts create v")
    from extract_try_replies [OF et] show ?thesis
    proof (elim disjE conjE exE)
      fix i
      assume r: "r = None" and i: "replies evs = [(200, JObj [(ascii ''ingredients'', JStr i)])]"
      from et r have "extract_try nts create v = (evs, None)" by simp
      from extract_succeeds [OF v True this] i v True et r show ?thesis
        by (simp add: replies_simps)
    next
      fix e
      assume r: "r = Some e" and n: "replies evs = []"
      from et r have "extract_try nts create v = (evs, Some e)" by simp
      from extract_catches [OF v True this] n v True et r show ?thesis
        by (simp add: replies_simps replies_append)
    qed
  qed
qed

text \<open>
  C4.  The destructuring of \<open>req.body\<close> stands outside the \<open>try\<close> block.  For a request
  without a parsed body the handler is on none of the three paths: it sends no reply, and
  its promise is rejected with the TypeError.
\<close>

theorem no_body_no_reply:
  "replies (fst (extract_ingredients nts create \<lparr>body = JUndefined\<rparr>)) = []
   \<and> snd (extract_ingredients nts create \<lparr>body = JUndefined\<rparr>) = Threw TypeError"
  by (simp add: extract_ingredients_def replies_simps)

text \<open>
  C7.  For a non-empty string as text, the one request to the chat completion has
  the model identifier \<open>gpt-5-mini\<close>, temperature \<open>0\<close> and exactly two messages: the
  system instruction and the user message that ends with the text, unchanged.
\<close>

theorem completion_request_shape:
  assumes "member (ascii ''text'') (body req) = Inr (JStr t)" and "t \<noteq> []"
  shows "chat_calls (fst (extract_ingredients nts create req)) =
           [\<lparr> model = ascii ''gpt-5-mini'',
              messages =
                [\<lparr> role = ascii ''system'',
                    content = ascii ''You are an assistant that extracts ingredients from text.'' \<rparr>,
                 \<lparr> role = ascii ''user'',
                    content = ascii ''Extract a clean list of ingredients from this text: '' @ t \<rparr>],
              temperature = 0 \<rparr>]"
proof -
  have tr: "truthy (JStr t)" using assms(2) by simp
  obtain evs r where et: "extract_try nts create (JStr t) = (evs, r)"
    by (cases "extract_try nts create (JStr t)")
  then have "chat_calls evs = [completion_params t] \<and> (r = None \<or> (\<exists>e. r = Some e))"
    by (auto simp: extract_try_def chat_calls_simps split: sum.splits)
  then have "chat_calls (fst (extract_ingredients nts create req)) = [completion_params t]"
    using assms(1) tr et
    by (auto simp: extract_ingredients_def chat_calls_simps chat_calls_def)
  then show ?thesis by (simp add: completion_params_def)
qed

theorem completion_request_shape_witness:
  "map role (messages (hd (chat_calls (fst (extract_ingredients (\<lambda>r. []) (\<lambda>p. Inl quota_error) flour_request))))) =
     [ascii ''system'', ascii ''user'']
   \<and> temperature (hd (chat_calls (fst (extract_ingredients (\<lambda>r. []) (\<lambda>p. Inl quota_error) flour_request)))) = 0
   \<and> length (chat_calls (fst (extract_ingredients (\<lambda>r. []) (\<lambda>p. Inl quota_error) flour_request))) = 1"
proof -
  have h1: "member (ascii ''text'') (body flour_request) = Inr (JStr flour_text)"
    by (simp add: flour_request_def)
  have h2: "flour_text \<noteq> []"
    by (simp add: flour_text_def ascii_def)
  from completion_request_shape [OF h1 h2, of "\<lambda>r. []" "\<lambda>p. Inl quota_error"]
  show ?thesis by simp
qed

text \<open>
  C9.  The gate rejects every falsy value of the \<open>text\<close> field in the same way:
  \<open>undefined\<close>, the empty string, \<open>0\<close>, \<open>false\<close> and \<open>null\<close> all give the 400 reply, and the
  chat completion is not requested.  By \<open>falsy_iff\<close> there is no other falsy value.
\<close>

theorem falsy_text_rejected:
  assumes "member (ascii ''text'') (body req) = Inr v"
    and "v = JUndefined \<or> v = JStr [] \<or> v = JNum 0 \<or> v = JBool False \<or> v = JNull"
  shows "chat_calls (fst (extract_ingredients nts create req)) = []
       \<and> replies (fst (extract_ingredients nts create req)) =
           [(400, JObj [(ascii ''error'', JStr (ascii ''No text provided''))])]
       \<and> snd (extract_ingredients nts create req) = Returned"
proof -
  from assms(2) have "\<not> truthy v" by auto
  from extract_rejects [OF assms(1) this] show ?thesis
    by (simp add: chat_calls_simps replies_simps)
qed

theorem falsy_text_rejected_witness:
  "replies (fst (extract_ingredients (\<lambda>r. []) (\<lambda>p. Inr flour_completion)
      \<lparr>body = JObj [(ascii ''text'', JNum 0)]\<rparr>)) =
     [(400, JObj [(ascii ''error'', JStr (ascii ''No text provided''))])]
   \<and> replies (fst (extract_ingredients (\<lambda>r. []) (\<lambda>p. Inr flour_completion)
      \<lparr>body = JObj [(ascii ''text'', JBool False)]\<rparr>)) =
     [(400, JObj [(ascii ''error'', JStr (ascii ''No text provided''))])]
   \<and> replies (fst (extract_ingredients (\<lambda>r. []) (\<lambda>p. Inr flour_completion)
      \<lparr>body = JObj [(ascii ''text'', JNull)]\<rparr>)) =
     [(400, JObj [(ascii ''error'', JStr (ascii ''No text provided''))])]
   \<and> chat_calls (fst (extract_ingredients (\<lambda>r. []) (\<lambda>p. Inr flour_completion)
      \<lparr>body = JObj [(ascii ''text'', JNum 0)]\<rparr>)) = []"
proof -
  have m: "member (ascii ''text'') (body \<lparr>body = JObj [(ascii ''text'', v)]\<rparr>) = Inr v" for v
    by simp
  from falsy_text_rejected [OF m [of "JNum 0"], of "\<lambda>r. []" "\<lambda>p. Inr flour_completion"]
    falsy_text_rejected [OF m [of "JBool False"], of "\<lambda>r. []" "\<lambda>p. Inr flour_completion"]
    falsy_text_rejected [OF m [of JNull], of "\<lambda>r. []" "\<lambda>p. Inr flour_completion"]
  show ?thesis by simp
qed

section \<open>The claim on \<open>/test-cors\<close>\<close>

text \<open>
  The message of the reply starts with the check mark U+2705 and a space, so the body is
  not \<open>{message: "CORS is working properly"}\<close>.
\<close>

theorem test_cors_message_counterexample:
  "replies (fst (test_cors \<lparr>body = JUndefined\<rparr>)) \<noteq>
     [(200, JObj [(ascii ''message'', JStr (ascii ''CORS is working properly''))])]"
  by (simp add: test_cors_def replies_simps ascii_def)

text \<open>
  C8, amended.  Every request to \<open>/test-cors\<close> is answered once, with status 200 and the
  body \<open>{message: m}\<close>, where \<open>m\<close> is the check mark U+2705, a space and
  \<open>CORS is working properly\<close>.
\<close>

theorem test_cors_reply:
  "test_cors req =
     ([Reply 200 (JObj [(ascii ''message'',
                         JStr ([0x2705, 0x0020] @ ascii ''CORS is working properly''))])],
      Returned)"
  by (simp add: test_cors_def ascii_def)

section \<open>The claims on the OCR script\<close>

text \<open>
  C5.  When the image is read and the text detection resolves with a result whose
  \<open>textAnnotations\<close> is a list: if the list is empty the script prints the line
  \<open>No text detected!\<close> and nothing on the error stream; if its first annotation has the
  description \<open>d\<close>, a string, the script prints \<open>d\<close> after \<open>Text detected:\<close>.
\<close>

theorem ocr_first_description_or_sentinel:
  assumes "readFileSync imagePath = Inr buf"
    and "textDetection buf = Inr (JObj kvs # rest)"
    and "map_of kvs (ascii ''textAnnotations'') = Some (JArr anns)"
  shows "(anns = [] \<longrightarrow>
            testOCR readFileSync textDetection =
              ([ReadFile imagePath, TextDetection buf,
                ConsoleLog [JStr (ascii ''No text detected!'')]], Returned))
       \<and> (\<forall>akvs more d.
            anns = JObj akvs # more \<and> map_of akvs (ascii ''description'') = Some (JStr d) \<longrightarrow>
            testOCR readFileSync textDetection =
              ([ReadFile imagePath, TextDetection buf,
                ConsoleLog [JStr (ascii ''Text detected:'' @ [0x000A]), JStr d]], Returned))"
proof -
  have m: "member (ascii ''textAnnotations'') (JObj kvs) = Inr (JArr anns)"
    using assms(3) by simp
  have empty: "testOCR readFileSync textDetection =
              ([ReadFile imagePath, TextDetection buf,
                ConsoleLog [JStr (ascii ''No text detected!'')]], Returned)" if "anns = []"
  proof -
    from that have "member (ascii ''length'') (JArr anns) = Inr (JNum 0)" by simp
    then have "ocr_try readFileSync textDetection =
           ([ReadFile imagePath, TextDetection buf, no_text_detected], None)"
      using ocr_try_no_text [where readFileSync = readFileSync and textDetection = textDetection, OF assms(1,2) m] by blast
    then show ?thesis by (simp add: testOCR_def no_text_detected_def)
  qed
  have first: "testOCR readFileSync textDetection =
              ([ReadFile imagePath, TextDetection buf,
                ConsoleLog [JStr (ascii ''Text detected:'' @ [0x000A]), JStr d]], Returned)"
    if "anns = JObj akvs # more" and "map_of akvs (ascii ''description'') = Some (JStr d)"
    for akvs more d
  proof -
    from that(1) have l: "member (ascii ''length'') (JArr anns) \<noteq> Inr (JNum 0)" by simp
    from that have x: "and_then (index0 (JArr anns)) (member (ascii ''description'')) = Inr (JStr d)"
      by (simp add: and_then_def)
    have "truthy (JArr anns)" by simp
    from ocr_try_text [where readFileSync = readFileSync and textDetection = textDetection, OF assms(1,2) m this l x] show ?thesis
      by (simp add: testOCR_def)
  qed
  from empty first show ?thesis by blast
qed

theorem ocr_first_description_or_sentinel_witness:
  "testOCR (\<lambda>f. Inr [0xFF, 0xD8]) (\<lambda>i. Inr [blank_result, JNull]) =
     ([ReadFile imagePath, TextDetection [0xFF, 0xD8],
       ConsoleLog [JStr (ascii ''No text detected!'')]], Returned)
   \<and> testOCR (\<lambda>f. Inr [0xFF, 0xD8]) (\<lambda>i. Inr [label_result, JNull]) =
     ([ReadFile imagePath, TextDetection [0xFF, 0xD8],
       ConsoleLog [JStr (ascii ''Text detected:'' @ [0x000A]), JStr (ascii ''SUGAR, SALT'')]], Returned)"
proof -
  have f: "(\<lambda>f. Inr [0xFF, 0xD8]) imagePath = (Inr [0xFF, 0xD8] :: js_error + 8 word list)"
    by simp
  have b: "(\<lambda>i. Inr [blank_result, JNull]) [0xFF, 0xD8 :: 8 word] =
      (Inr (JObj [(ascii ''textAnnotations'', JArr [])] # [JNull]) :: js_error + jsval list)"
    by (simp add: blank_result_def)
  have l: "(\<lambda>i. Inr [label_result, JNull]) [0xFF, 0xD8 :: 8 word] =
      (Inr (JObj [(ascii ''textAnnotations'',
            JArr [JObj [(ascii ''description'', JStr (ascii ''SUGAR, SALT''))],
                  JObj [(ascii ''description'', JStr (ascii ''SUGAR''))]])] # [JNull]) :: js_error + jsval list)"
    by (simp add: label_result_def)
  have mb: "map_of [(ascii ''textAnnotations'', JArr [])] (ascii ''textAnnotations'') = Some (JArr [])"
    by simp
  have ml: "map_of [(ascii ''textAnnotations'',
            JArr [JObj [(ascii ''description'', JStr (ascii ''SUGAR, SALT''))],
                  JObj [(ascii ''description'', JStr (ascii ''SUGAR''))]])] (ascii ''textAnnotations'') =
      Some (JArr [JObj [(ascii ''description'', JStr (ascii ''SUGAR, SALT''))],
                  JObj [(ascii ''description'', JStr (ascii ''SUGAR''))]])"
    by simp
  from ocr_first_description_or_sentinel [of "\<lambda>f. Inr [0xFF, 0xD8]" "[0xFF, 0xD8]"
      "\<lambda>i. Inr [blank_result, JNull]", OF f b mb]
  have one: "testOCR (\<lambda>f. Inr [0xFF, 0xD8]) (\<lambda>i. Inr [blank_result, JNull]) =
     ([ReadFile imagePath, TextDetection [0xFF, 0xD8],
       ConsoleLog [JStr (ascii ''No text detected!'')]], Returned)"
    by blast
  from ocr_first_description_or_sentinel [of "\<lambda>f. Inr [0xFF, 0xD8]" "[0xFF, 0xD8]"
      "\<lambda>i. Inr [label_result, JNull]", OF f l ml]
  have two: "testOCR (\<lambda>f. Inr [0xFF, 0xD8]) (\<lambda>i. Inr [label_result, JNull]) =
     ([ReadFile imagePath, TextDetection [0xFF, 0xD8],
       ConsoleLog [JStr (ascii ''Text detected:'' @ [0x000A]), JStr (ascii ''SUGAR, SALT'')]], Returned)"
    by simp
  from one two show ?thesis by (intro conjI)
qed

text \<open>
  C6.  When reading the image file throws \<open>e\<close>, or the text detection rejects with \<open>e\<close>,
  \<open>testOCR\<close> still returns normally: \<open>e\<close> is written to the error stream after the fixed
  prefix, nothing is printed on the output stream and no reply is sent.
\<close>

theorem ocr_failure_only_logged:
  assumes "readFileSync imagePath = Inl e
           \<or> (\<exists>buf. readFileSync imagePath = Inr buf \<and> textDetection buf = Inl e)"
  shows "snd (testOCR readFileSync textDetection) = Returned
       \<and> replies (fst (testOCR readFileSync textDetection)) = []
       \<and> console_logs (fst (testOCR readFileSync textDetection)) = []
       \<and> error_logs (fst (testOCR readFileSync textDetection)) =
           [[LVal (JStr (ascii ''Error with Google Vision API:'')), LErr e]]"
  using assms
  by (auto simp: testOCR_def ocr_try_def replies_simps console_logs_simps error_logs_simps)

theorem ocr_failure_only_logged_witness:
  "error_logs (fst (testOCR (\<lambda>f. Inl (Failure (JStr (ascii ''ENOENT'')))) (\<lambda>i. Inr [blank_result]))) =
     [[LVal (JStr (ascii ''Error with Google Vision API:'')), LErr (Failure (JStr (ascii ''ENOENT'')))]]
   \<and> replies (fst (testOCR (\<lambda>f. Inl (Failure (JStr (ascii ''ENOENT'')))) (\<lambda>i. Inr [blank_result]))) = []
   \<and> error_logs (fst (testOCR (\<lambda>f. Inr [0xFF, 0xD8]) (\<lambda>i. Inl quota_error))) =
     [[LVal (JStr (ascii ''Error with Google Vision API:'')), LErr quota_error]]
   \<and> replies (fst (testOCR (\<lambda>f. Inr [0xFF, 0xD8]) (\<lambda>i. Inl quota_error))) = []
   \<and> snd (testOCR (\<lambda>f. Inr [0xFF, 0xD8]) (\<lambda>i. Inl quota_error)) = Returned"
proof -
  have r: "(\<lambda>f. Inl (Failure (JStr (ascii ''ENOENT'')))) imagePath =
             (Inl (Failure (JStr (ascii ''ENOENT''))) :: js_error + 8 word list)
           \<or> (\<exists>buf. (\<lambda>f. Inl (Failure (JStr (ascii ''ENOENT'')))) imagePath =
                 (Inr buf :: js_error + 8 word list) \<and>
               (\<lambda>i. Inr [blank_result]) buf =
                 (Inl (Failure (JStr (ascii ''ENOENT''))) :: js_error + jsval list))"
    by simp
  have d: "(\<lambda>f. Inr [0xFF, 0xD8]) imagePath = (Inl quota_error :: js_error + 8 word list)
           \<or> (\<exists>buf. (\<lambda>f. Inr [0xFF, 0xD8]) imagePath = (Inr buf :: js_error + 8 word list) \<and>
               (\<lambda>i. Inl quota_error) buf = (Inl quota_error :: js_error + jsval list))"
    by simp
  from ocr_failure_only_logged [of "\<lambda>f. Inl (Failure (JStr (ascii ''ENOENT'')))"
      "Failure (JStr (ascii ''ENOENT''))" "\<lambda>i. Inr [blank_result]", OF r]
    ocr_failure_only_logged [of "\<lambda>f. Inr [0xFF, 0xD8]" quota_error "\<lambda>i. Inl quota_error", OF d]
  show ?thesis by simp
qed

text \<open>
  C10.  A result without \<open>textAnnotations\<close> (or with \<open>null\<close> there) and a result with the
  empty list run alike: both print \<open>No text detected!\<close> and return.  On the other branch
  \<open>detections\<close> is truthy, and \<open>detections[0]\<close> does not throw for any truthy value.
\<close>

theorem missing_annotations_like_empty:
  assumes "readFileSync imagePath = Inr buf"
    and "textDetection buf = Inr (JObj kvs # rest)"
    and "map_of kvs (ascii ''textAnnotations'') = None
         \<or> map_of kvs (ascii ''textAnnotations'') = Some JNull
         \<or> map_of kvs (ascii ''textAnnotations'') = Some (JArr [])"
  shows "testOCR readFileSync textDetection =
           ([ReadFile imagePath, TextDetection buf, no_text_detected], Returned)
       \<and> (\<forall>d. \<not> (\<not> truthy d \<or> member (ascii ''length'') d = Inr (JNum 0)) \<longrightarrow>
             (\<exists>x. index0 d = Inr x))"
proof -
  from assms(3) obtain d where d: "member (ascii ''textAnnotations'') (JObj kvs) = Inr d"
    and s: "\<not> truthy d \<or> member (ascii ''length'') d = Inr (JNum 0)"
    by auto
  have "ocr_try readFileSync textDetection =
           ([ReadFile imagePath, TextDetection buf, no_text_detected], None)"
    by (rule ocr_try_no_text [where readFileSync = readFileSync and textDetection = textDetection,
          OF assms(1,2) d s])
  then have "testOCR readFileSync textDetection =
           ([ReadFile imagePath, TextDetection buf, no_text_detected], Returned)"
    by (simp add: testOCR_def)
  then show ?thesis
    by (simp add: index0_truthy)
qed

theorem missing_annotations_like_empty_witness:
  "testOCR (\<lambda>f. Inr [0xFF, 0xD8]) (\<lambda>i. Inr [JObj []]) =
     ([ReadFile imagePath, TextDetection [0xFF, 0xD8], no_text_detected], Returned)
   \<and> testOCR (\<lambda>f. Inr [0xFF, 0xD8]) (\<lambda>i. Inr [JObj []]) =
     testOCR (\<lambda>f. Inr [0xFF, 0xD8]) (\<lambda>i. Inr [blank_result])
   \<and> (\<exists>x. index0 (JArr [JNull]) = Inr x)"
proof -
  have f: "(\<lambda>f. Inr [0xFF, 0xD8]) imagePath = (Inr [0xFF, 0xD8] :: js_error + 8 word list)"
    by simp
  have m: "(\<lambda>i. Inr [JObj []]) [0xFF, 0xD8 :: 8 word] = (Inr (JObj [] # []) :: js_error + jsval list)"
    by simp
  have b: "(\<lambda>i. Inr [blank_result]) [0xFF, 0xD8 :: 8 word] =
      (Inr (JObj [(ascii ''textAnnotations'', JArr [])] # []) :: js_error + jsval list)"
    by (simp add: blank_result_def)
  have hm: "map_of [] (ascii ''textAnnotations'') = (None :: jsval option)
      \<or> map_of [] (ascii ''textAnnotations'') = Some JNull
      \<or> map_of [] (ascii ''textAnnotations'') = Some (JArr [])"
    by simp
  have hb: "map_of [(ascii ''textAnnotations'', JArr [])] (ascii ''textAnnotations'') = None
      \<or> map_of [(ascii ''textAnnotations'', JArr [])] (ascii ''textAnnotations'') = Some JNull
      \<or> map_of [(ascii ''textAnnotations'', JArr [])] (ascii ''textAnnotations'') = Some (JArr [])"
    by simp
  note missing = missing_annotations_like_empty [of "\<lambda>f. Inr [0xFF, 0xD8]" "[0xFF, 0xD8]"
      "\<lambda>i. Inr [JObj []]", OF f m hm]
  note empty = missing_annotations_like_empty [of "\<lambda>f. Inr [0xFF, 0xD8]" "[0xFF, 0xD8]"
      "\<lambda>i. Inr [blank_result]", OF f b hb]
  have t: "\<not> (\<not> truthy (JArr [JNull]) \<or> member (ascii ''length'') (JArr [JNull]) = Inr (JNum 0))"
    by simp
  from missing have one: "testOCR (\<lambda>f. Inr [0xFF, 0xD8]) (\<lambda>i. Inr [JObj []]) =
     ([ReadFile imagePath, TextDetection [0xFF, 0xD8], no_text_detected], Returned)"
    by (rule conjunct1)
  from empty have two: "testOCR (\<lambda>f. Inr [0xFF, 0xD8]) (\<lambda>i. Inr [blank_result]) =
     ([ReadFile imagePath, TextDetection [0xFF, 0xD8], no_text_detected], Returned)"
    by (rule conjunct1)
  from missing t have three: "\<exists>x. index0 (JArr [JNull]) = Inr x"
    by blast
  from one two three show ?thesis by simp
qed

end
